theory Spec2Isabelle
  imports Complex_Main "HOL-Library.Word" "HOL-Library.List_Lexorder"
begin

section \<open>Strings, maps and entities\<close>

text \<open>
  A JavaScript string is a sequence of 16-bit code units. Comparison with \<open><\<close> is
  lexicographic on code units, which is the order of \<open>HOL-Library.List_Lexorder\<close> on
  lists of words. ASCII literals are written \<open>str ''...''\<close>.
\<close>

type_synonym jschar = "16 word"
type_synonym jsstring = "jschar list"

definition str :: "string \<Rightarrow> jsstring" where
  "str s = map of_char s"

text \<open>
  A JavaScript \<open>Map\<close> keeps its keys in insertion order; \<open>set\<close> on a key that is present
  replaces the value in place, \<open>get\<close> on an absent key gives \<open>undefined\<close> (here \<open>None\<close>).
\<close>

type_synonym ('k, 'v) jsmap = "('k \<times> 'v) list"

definition mapGet :: "('k, 'v) jsmap \<Rightarrow> 'k \<Rightarrow> 'v option" where
  "mapGet m k = map_of m k"

fun mapSet :: "'k \<Rightarrow> 'v \<Rightarrow> ('k, 'v) jsmap \<Rightarrow> ('k, 'v) jsmap" where
  "mapSet k v [] = [(k, v)]"
| "mapSet k v ((k', v') # m) = (if k' = k then (k', v) # m else (k', v') # mapSet k v m)"

definition mapKeys :: "('k, 'v) jsmap \<Rightarrow> 'k list" where
  "mapKeys m = map fst m"

text \<open>
  Modelled from the spec: the type declarations \<open>Channel\<close>, \<open>User\<close> and \<open>Message\<close> live in
  \<open>./channel\<close>, \<open>./user\<close> and \<open>./message\<close>, which are not among the sources. The fields are
  those of section 3 of the specification; the code under verification reads \<open>id\<close> and
  \<open>name\<close> of a channel, \<open>id\<close> of a user and \<open>text\<close>, \<open>subtype\<close> and \<open>timeStamp\<close> of a message.
  Optional fields are options.
\<close>

record channel =
  channel_id :: jsstring
  channel_name :: jsstring

record user =
  user_id :: jsstring
  user_name :: jsstring
  displayName :: "jsstring option"
  avatarURL :: "jsstring option"

record message =
  userID :: "jsstring option"
  timeStamp :: real
  msg_text :: jsstring
  subtype :: "jsstring option"

text \<open>
  The value returned by \<open>getMetadata\<close> of \<open>./metadata\<close> (destructured in
  \<open>messagesToMarkdown\<close> as \<open>{ time, imageURL, username }\<close>).
\<close>

record metadata =
  meta_time :: jsstring
  meta_imageURL :: jsstring
  meta_username :: jsstring

section \<open>The text transformer (\<open>createBody\<close>)\<close>

text \<open>
  The regular expressions \<open>/<@(.*?)>/g\<close> and \<open>/<#(.*?)>/g\<close>. The dot matches every code unit
  except the four line terminators. \<open>captureGroup\<close> is the lazy \<open>(.*?)>\<close>: it stops at the
  first \<open>>\<close>, and fails when a line terminator or the end of the text comes first.
\<close>

definition isLineTerminator :: "jschar \<Rightarrow> bool" where
  "isLineTerminator c = (c = 0x0A \<or> c = 0x0D \<or> c = 0x2028 \<or> c = 0x2029)"

fun captureGroup :: "jsstring \<Rightarrow> (jsstring \<times> jsstring) option" where
  "captureGroup [] = None"
| "captureGroup (c # cs) =
     (if c = of_char CHR ''>'' then Some ([], cs)
      else if isLineTerminator c then None
      else (case captureGroup cs of
              None \<Rightarrow> None
            | Some (g, rest) \<Rightarrow> Some (c # g, rest)))"

text \<open>
  One attempt to match \<open><\<close>, the sigil (\<open>@\<close> or \<open>#\<close>), the group and \<open>>\<close> at the start of
  the text: the captured group and the text after the match.
\<close>

fun matchToken :: "jschar \<Rightarrow> jsstring \<Rightarrow> (jsstring \<times> jsstring) option" where
  "matchToken sigil (c # d # ds) =
     (if c = of_char CHR ''<'' \<and> d = sigil then captureGroup ds else None)"
| "matchToken sigil _ = None"

lemma captureGroup_length:
  "captureGroup s = Some (g, rest) \<Longrightarrow> length rest < length s"
  by (induction s arbitrary: g rest) (auto split: if_splits option.splits)

lemma matchToken_length:
  assumes "matchToken sigil s = Some (g, rest)"
  shows "length rest < length s"
  using assms
  by (cases "(sigil, s)" rule: matchToken.cases)
     (auto split: if_splits dest: captureGroup_length)

text \<open>
  \<open>String.prototype.replace\<close> with a global regular expression and a callback: the text
  is scanned from the left, every match is replaced by the callback's result for the
  captured group, scanning goes on after the match, and the replacement is not scanned
  again.
\<close>

function replaceTokens :: "jschar \<Rightarrow> (jsstring \<Rightarrow> jsstring) \<Rightarrow> jsstring \<Rightarrow> jsstring" where
  "replaceTokens sigil f [] = []"
| "replaceTokens sigil f (c # cs) =
     (case matchToken sigil (c # cs) of
        Some (g, rest) \<Rightarrow> f g @ replaceTokens sigil f rest
      | None \<Rightarrow> c # replaceTokens sigil f cs)"
  by pat_completeness auto
termination
  by (relation "measure (\<lambda>(sigil, f, s). length s)")
     (auto dest: matchToken_length)

text \<open>\<open>body.replace(/\n/g, '<br>')\<close>\<close>

definition replaceNewlines :: "jsstring \<Rightarrow> jsstring" where
  "replaceNewlines s = concat (map (\<lambda>c. if c = 0x0A then str ''<br>'' else [c]) s)"

definition createBody ::
  "message \<Rightarrow> jsstring \<Rightarrow> (jsstring, channel) jsmap \<Rightarrow> (jsstring, user) jsmap \<Rightarrow> jsstring" where
  "createBody message username channels users =
     (let body = msg_text message;
          body = replaceTokens (of_char CHR ''@'')
                   (\<lambda>d1. case mapGet users d1 of
                            Some user \<Rightarrow> str ''`@'' @ username @ str ''`''
                          | None \<Rightarrow> str ''`@'' @ d1 @ str ''`'') body;
          body = replaceTokens (of_char CHR ''#'')
                   (\<lambda>d1. case mapGet channels d1 of
                            Some channel \<Rightarrow> str ''`#'' @ channel_name channel @ str ''`''
                          | None \<Rightarrow> str ''`@'' @ d1 @ str ''`'') body;
          body = replaceNewlines body
      in body)"

section \<open>The renderer (\<open>messagesToMarkdown\<close>)\<close>

text \<open>
  \<open>getMetadata\<close> is a function of \<open>./metadata\<close>, which is not among the sources: it is a
  parameter \<open>getMetadata\<close> of the renderer. \<open>tableRow\<close> is the body of the loop,
  \<open>rowsLoop\<close> the loop with its accumulator \<open>md\<close>.
\<close>

definition tableRow ::
  "(message \<Rightarrow> (jsstring, user) jsmap \<Rightarrow> metadata) \<Rightarrow> (jsstring, channel) jsmap \<Rightarrow>
   (jsstring, user) jsmap \<Rightarrow> message \<Rightarrow> jsstring" where
  "tableRow getMetadata channels users message =
     (let meta = getMetadata message users;
          time = meta_time meta;
          imageURL = meta_imageURL meta;
          username = meta_username meta;
          image = (if imageURL = [] then [] else str ''![]('' @ imageURL @ str '')'');
          body = createBody message username channels users
      in str ''|'' @ time @ str ''|'' @ image @ str ''|'' @ username @ str ''|''
         @ body @ str ''|\<newline>'')"

fun rowsLoop ::
  "(message \<Rightarrow> (jsstring, user) jsmap \<Rightarrow> metadata) \<Rightarrow> (jsstring, channel) jsmap \<Rightarrow>
   (jsstring, user) jsmap \<Rightarrow> jsstring \<Rightarrow> message list \<Rightarrow> jsstring" where
  "rowsLoop getMetadata channels users md [] = md"
| "rowsLoop getMetadata channels users md (message # messages) =
     rowsLoop getMetadata channels users
       (md @ tableRow getMetadata channels users message) messages"

definition messagesToMarkdown ::
  "(message \<Rightarrow> (jsstring, user) jsmap \<Rightarrow> metadata) \<Rightarrow> message list \<Rightarrow>
   (jsstring, channel) jsmap \<Rightarrow> (jsstring, user) jsmap \<Rightarrow> jsstring" where
  "messagesToMarkdown getMetadata messages channels users =
     rowsLoop getMetadata channels users [] messages"

section \<open>Files, paths and errors\<close>

text \<open>
  The conversion reads a snapshot of the file system and issues \<open>mkdir\<close> and \<open>writeFile\<close>
  calls. A directory is the list of names \<open>readdir\<close> gives, in that order; a file is the
  outcome of \<open>JSON.parse\<close> on its content (\<open>None\<close> when the content is not JSON). Every
  written path ends in \<open>.md\<close> and every path read after the first write ends in \<open>.json\<close>,
  so the calls issued never change what is read later and are collected as a list, in
  the order they are issued. The primitives \<open>mkdir\<close> and \<open>writeFile\<close> are taken to
  succeed; \<open>readdir\<close>, \<open>stat\<close> and \<open>readFile\<close> fail on a path that is absent or of the
  wrong kind.
\<close>

datatype json =
  JNull
| JBool bool
| JNumber real
| JString jsstring
| JArray "json list"
| JObject "(jsstring \<times> json) list"

datatype node = Directory "jsstring list" | File "json option"

type_synonym filesystem = "jsstring \<Rightarrow> node option"

datatype error =
  FileDoesNotExist jsstring
| DataIsNotAnArray
| SyntaxError
| SystemError jsstring
| TypeError
| MalformedRecord

datatype effect = Mkdir jsstring | WriteFile jsstring jsstring

text \<open>
  \<open>path.join(dir, item)\<close> for a normalised, non-empty directory path that does not end in
  a separator and an entry name (POSIX). \<open>path.basename(p, ext)\<close> for a path that does not
  end in a separator: the last component, without \<open>ext\<close> when the component ends in
  \<open>ext\<close> and is longer than it; \<open>ext = []\<close> stands for a call without the second
  argument.
\<close>

definition pathJoin :: "jsstring \<Rightarrow> jsstring \<Rightarrow> jsstring" where
  "pathJoin dir item = dir @ str ''/'' @ item"

definition endsWith :: "jsstring \<Rightarrow> jsstring \<Rightarrow> bool" where
  "endsWith s e = (length e \<le> length s \<and> drop (length s - length e) s = e)"

definition lastComponent :: "jsstring \<Rightarrow> jsstring" where
  "lastComponent p =
     rev (takeWhile (\<lambda>c. c \<noteq> of_char CHR ''/'')
            (dropWhile (\<lambda>c. c = of_char CHR ''/'') (rev p)))"

definition basename :: "jsstring \<Rightarrow> jsstring \<Rightarrow> jsstring" where
  "basename p ext =
     (let b = lastComponent p in
      if ext = [] \<or> length p < length ext then b
      else if ext = p then []
      else if endsWith b ext \<and> b \<noteq> ext then take (length b - length ext) b
      else b)"

text \<open>
  \<open>Array.prototype.sort\<close> with the comparator \<open>(a, b) => (a === b ? 0 : a < b ? 1 : -1)\<close>
  puts \<open>a\<close> before \<open>b\<close> when \<open>b < a\<close>: the result is the descending arrangement of the
  strings, which is unique because equal strings are identical.
\<close>

definition sortDescending :: "jsstring list \<Rightarrow> jsstring list" where
  "sortDescending xs = rev (sort xs)"

section \<open>Reading (\<open>log2md.ts\<close>)\<close>

fun enumMessageJSONsLoop ::
  "filesystem \<Rightarrow> jsstring \<Rightarrow> jsstring list \<Rightarrow> jsstring list \<Rightarrow> error + jsstring list" where
  "enumMessageJSONsLoop fs dir results [] = Inr results"
| "enumMessageJSONsLoop fs dir results (item # items) =
     (if \<not> endsWith item (str ''.json'') then enumMessageJSONsLoop fs dir results items
      else
        (let filePath = pathJoin dir item in
         case fs filePath of
           None \<Rightarrow> Inl (SystemError filePath)
         | Some (Directory _) \<Rightarrow> enumMessageJSONsLoop fs dir results items
         | Some (File _) \<Rightarrow> enumMessageJSONsLoop fs dir (results @ [filePath]) items))"

definition enumMessageJSONs :: "filesystem \<Rightarrow> jsstring \<Rightarrow> error + jsstring list" where
  "enumMessageJSONs fs dir =
     (case fs dir of
        Some (Directory items) \<Rightarrow> enumMessageJSONsLoop fs dir [] items
      | _ \<Rightarrow> Inl (SystemError dir))"

fun isArray :: "json \<Rightarrow> bool" where
  "isArray (JArray vs) = True"
| "isArray _ = False"

fun elements :: "json \<Rightarrow> json list" where
  "elements (JArray vs) = vs"
| "elements _ = []"

definition readArrayFromJSON :: "filesystem \<Rightarrow> jsstring \<Rightarrow> error + json list" where
  "readArrayFromJSON fs filePath =
     (case fs filePath of
        None \<Rightarrow> Inl (FileDoesNotExist filePath)
      | Some (Directory _) \<Rightarrow> Inl (SystemError filePath)
      | Some (File None) \<Rightarrow> Inl SyntaxError
      | Some (File (Some values)) \<Rightarrow>
          (if \<not> isArray values then Inl DataIsNotAnArray else Inr (elements values)))"

text \<open>
  \<open>parseChannel\<close>, \<open>parseUser\<close> and \<open>parseMessage\<close> are the default exports of
  \<open>./channel\<close>, \<open>./user\<close> and \<open>./message\<close>, which are not among the sources: they are
  parameters, and may reject a record.
\<close>

fun readChannelsLoop ::
  "(json \<Rightarrow> error + channel) \<Rightarrow> (jsstring, channel) jsmap \<Rightarrow> json list \<Rightarrow>
   error + (jsstring, channel) jsmap" where
  "readChannelsLoop parseChannel channels [] = Inr channels"
| "readChannelsLoop parseChannel channels (v # values) =
     (case parseChannel v of
        Inl e \<Rightarrow> Inl e
      | Inr channel \<Rightarrow>
          readChannelsLoop parseChannel (mapSet (channel_id channel) channel channels) values)"

definition readChannels ::
  "(json \<Rightarrow> error + channel) \<Rightarrow> filesystem \<Rightarrow> jsstring \<Rightarrow> error + (jsstring, channel) jsmap" where
  "readChannels parseChannel fs dir =
     (case readArrayFromJSON fs (pathJoin dir (str ''channels.json'')) of
        Inl e \<Rightarrow> Inl e
      | Inr values \<Rightarrow> readChannelsLoop parseChannel [] values)"

fun readUsersLoop ::
  "(json \<Rightarrow> error + user) \<Rightarrow> (jsstring, user) jsmap \<Rightarrow> json list \<Rightarrow>
   error + (jsstring, user) jsmap" where
  "readUsersLoop parseUser users [] = Inr users"
| "readUsersLoop parseUser users (v # values) =
     (case parseUser v of
        Inl e \<Rightarrow> Inl e
      | Inr user \<Rightarrow> readUsersLoop parseUser (mapSet (user_id user) user users) values)"

definition readUsers ::
  "(json \<Rightarrow> error + user) \<Rightarrow> filesystem \<Rightarrow> jsstring \<Rightarrow> error + (jsstring, user) jsmap" where
  "readUsers parseUser fs dir =
     (case readArrayFromJSON fs (pathJoin dir (str ''users.json'')) of
        Inl e \<Rightarrow> Inl e
      | Inr values \<Rightarrow> readUsersLoop parseUser [] values)"

fun readMessagesLoop ::
  "(json \<Rightarrow> error + message) \<Rightarrow> message list \<Rightarrow> json list \<Rightarrow> error + message list" where
  "readMessagesLoop parseMessage messages [] = Inr messages"
| "readMessagesLoop parseMessage messages (v # values) =
     (case parseMessage v of
        Inl e \<Rightarrow> Inl e
      | Inr message \<Rightarrow> readMessagesLoop parseMessage (messages @ [message]) values)"

definition readMessages ::
  "(json \<Rightarrow> error + message) \<Rightarrow> filesystem \<Rightarrow> jsstring \<Rightarrow> error + message list" where
  "readMessages parseMessage fs filePath =
     (case readArrayFromJSON fs filePath of
        Inl e \<Rightarrow> Inl e
      | Inr values \<Rightarrow> readMessagesLoop parseMessage [] values)"

section \<open>The aggregator (\<open>log2md.ts\<close>)\<close>

text \<open>The option \<open>channelLogin?: boolean\<close>; the test \<open>if (ignore.channelLogin)\<close> holds for \<open>true\<close> only.\<close>

record ignoreMessage =
  channelLogin :: "bool option"

definition isIgnore :: "message \<Rightarrow> ignoreMessage \<Rightarrow> bool" where
  "isIgnore message ignore =
     (if channelLogin ignore = Some True then subtype message = Some (str ''channel_join'')
      else False)"

text \<open>\<open>messages.filter((message) => !isIgnore(message, ignore))\<close>\<close>

definition notIgnored :: "ignoreMessage \<Rightarrow> message list \<Rightarrow> message list" where
  "notIgnored ignore messages = filter (\<lambda>message. \<not> isIgnore message ignore) messages"

text \<open>
  The statements both conversions share: creating the destination directory, writing one
  log, one line of the index, and writing the index. \<open>log2Md\<close> converts a channel with
  \<open>convertChannelMessagesSameDay\<close> when the option \<open>groupingSameDayByUTC\<close> is \<open>true\<close>,
  and with \<open>convertChannelMessages\<close> otherwise.
\<close>

definition makeDestDir :: "filesystem \<Rightarrow> jsstring \<Rightarrow> effect list" where
  "makeDestDir fs dest = (if fs dest = None then [Mkdir dest] else [])"

definition writeLog ::
  "(message \<Rightarrow> (jsstring, user) jsmap \<Rightarrow> metadata) \<Rightarrow> (jsstring, channel) jsmap \<Rightarrow>
   (jsstring, user) jsmap \<Rightarrow> jsstring \<Rightarrow> jsstring \<Rightarrow> message list \<Rightarrow> effect" where
  "writeLog getMetadata channels users dest logName messages =
     (let table = messagesToMarkdown getMetadata messages channels users;
          markdown = str ''# '' @ logName @ str ''\<newline>\<newline>'' @ table;
          destFilePath = pathJoin dest (logName @ str ''.md'')
      in WriteFile destFilePath markdown)"

definition indexLine :: "jsstring \<Rightarrow> jsstring" where
  "indexLine logName = str ''- ['' @ logName @ str ''](./'' @ logName @ str ''.md)\<newline>''"

definition writeIndex :: "jsstring \<Rightarrow> jsstring \<Rightarrow> jsstring \<Rightarrow> effect list" where
  "writeIndex src dest indexMd =
     (if indexMd \<noteq> [] then
        [WriteFile (pathJoin dest (str ''index.md''))
           (str ''# '' @ basename src [] @ str ''\<newline>\<newline>'' @ indexMd)]
      else [])"

subsection \<open>Grouping by UTC day (\<open>convertChannelMessagesSameDay\<close>)\<close>

text \<open>
  \<open>tsToDate\<close> and \<open>formatDate\<close> are functions of \<open>./metadata\<close>, which is not among the
  sources: they are parameters. \<open>groupMessages\<close> is the inner loop over the messages of
  one file, \<open>groupFiles\<close> the loop over the files, \<open>outputLogs\<close> the loop over
  \<open>logs.keys()\<close>; \<open>logs.get(logName)\<close> on an absent key would hand \<open>undefined\<close> to the
  renderer, whose loop raises a type error.
\<close>

fun groupMessages ::
  "(real \<Rightarrow> 'd) \<Rightarrow> ('d \<Rightarrow> jsstring \<Rightarrow> bool \<Rightarrow> jsstring) \<Rightarrow> ignoreMessage \<Rightarrow>
   (jsstring, message list) jsmap \<Rightarrow> message list \<Rightarrow> (jsstring, message list) jsmap" where
  "groupMessages tsToDate formatDate ignore logs [] = logs"
| "groupMessages tsToDate formatDate ignore logs (message # messages) =
     (if isIgnore message ignore then groupMessages tsToDate formatDate ignore logs messages
      else
        (let date = formatDate (tsToDate (timeStamp message)) (str ''YYYY-MM-DD'') True in
         case mapGet logs date of
           Some targets \<Rightarrow>
             groupMessages tsToDate formatDate ignore
               (mapSet date (targets @ [message]) logs) messages
         | None \<Rightarrow>
             groupMessages tsToDate formatDate ignore (mapSet date [message] logs) messages))"

fun groupFiles ::
  "(json \<Rightarrow> error + message) \<Rightarrow> (real \<Rightarrow> 'd) \<Rightarrow> ('d \<Rightarrow> jsstring \<Rightarrow> bool \<Rightarrow> jsstring) \<Rightarrow>
   filesystem \<Rightarrow> ignoreMessage \<Rightarrow> (jsstring, message list) jsmap \<Rightarrow> jsstring list \<Rightarrow>
   error + (jsstring, message list) jsmap" where
  "groupFiles parseMessage tsToDate formatDate fs ignore logs [] = Inr logs"
| "groupFiles parseMessage tsToDate formatDate fs ignore logs (filePath # filePaths) =
     (case readMessages parseMessage fs filePath of
        Inl e \<Rightarrow> Inl e
      | Inr messages \<Rightarrow>
          groupFiles parseMessage tsToDate formatDate fs ignore
            (groupMessages tsToDate formatDate ignore logs messages) filePaths)"

fun outputLogs ::
  "(message \<Rightarrow> (jsstring, user) jsmap \<Rightarrow> metadata) \<Rightarrow> (jsstring, channel) jsmap \<Rightarrow>
   (jsstring, user) jsmap \<Rightarrow> jsstring \<Rightarrow> (jsstring, message list) jsmap \<Rightarrow> jsstring list \<Rightarrow>
   jsstring list \<Rightarrow> effect list \<times> (error + jsstring list)" where
  "outputLogs getMetadata channels users dest logs logNames [] = ([], Inr logNames)"
| "outputLogs getMetadata channels users dest logs logNames (logName # keys) =
     (case mapGet logs logName of
        None \<Rightarrow> ([], Inl TypeError)
      | Some messages \<Rightarrow>
          (case outputLogs getMetadata channels users dest logs (logNames @ [logName]) keys of
             (effects, r) \<Rightarrow>
               (writeLog getMetadata channels users dest logName messages # effects, r)))"

definition convertChannelMessagesSameDay ::
  "(json \<Rightarrow> error + message) \<Rightarrow> (message \<Rightarrow> (jsstring, user) jsmap \<Rightarrow> metadata) \<Rightarrow>
   (real \<Rightarrow> 'd) \<Rightarrow> ('d \<Rightarrow> jsstring \<Rightarrow> bool \<Rightarrow> jsstring) \<Rightarrow> filesystem \<Rightarrow>
   jsstring \<Rightarrow> jsstring \<Rightarrow> (jsstring, channel) jsmap \<Rightarrow> (jsstring, user) jsmap \<Rightarrow>
   ignoreMessage \<Rightarrow> effect list \<times> (error + unit)" where
  "convertChannelMessagesSameDay parseMessage getMetadata tsToDate formatDate fs
     src dest channels users ignore =
     (let made = makeDestDir fs dest in
      case enumMessageJSONs fs src of
        Inl e \<Rightarrow> (made, Inl e)
      | Inr filePaths \<Rightarrow>
          (case groupFiles parseMessage tsToDate formatDate fs ignore [] filePaths of
             Inl e \<Rightarrow> (made, Inl e)
           | Inr logs \<Rightarrow>
               (case outputLogs getMetadata channels users dest logs [] (mapKeys logs) of
                  (written, Inl e) \<Rightarrow> (made @ written, Inl e)
                | (written, Inr logNames) \<Rightarrow>
                    (let indexMd = foldl (\<lambda>indexMd logName. indexMd @ indexLine logName) []
                                     (sortDescending logNames)
                     in (made @ written @ writeIndex src dest indexMd, Inr ())))))"

subsection \<open>Grouping by source file (\<open>convertChannelMessages\<close>)\<close>

fun convertFiles ::
  "(json \<Rightarrow> error + message) \<Rightarrow> (message \<Rightarrow> (jsstring, user) jsmap \<Rightarrow> metadata) \<Rightarrow>
   filesystem \<Rightarrow> jsstring \<Rightarrow> (jsstring, channel) jsmap \<Rightarrow> (jsstring, user) jsmap \<Rightarrow>
   ignoreMessage \<Rightarrow> jsstring \<Rightarrow> jsstring list \<Rightarrow> effect list \<times> (error + jsstring)" where
  "convertFiles parseMessage getMetadata fs dest channels users ignore indexMd [] =
     ([], Inr indexMd)"
| "convertFiles parseMessage getMetadata fs dest channels users ignore indexMd
     (filePath # filePaths) =
     (case readMessages parseMessage fs filePath of
        Inl e \<Rightarrow> ([], Inl e)
      | Inr allMessages \<Rightarrow>
          (let messages = notIgnored ignore allMessages in
           if length messages = 0 then
             convertFiles parseMessage getMetadata fs dest channels users ignore indexMd
               filePaths
           else
             (let logName = basename filePath (str ''.json'') in
              case convertFiles parseMessage getMetadata fs dest channels users ignore
                     (indexMd @ indexLine logName) filePaths of
                (effects, r) \<Rightarrow>
                  (writeLog getMetadata channels users dest logName messages # effects, r))))"

definition convertChannelMessages ::
  "(json \<Rightarrow> error + message) \<Rightarrow> (message \<Rightarrow> (jsstring, user) jsmap \<Rightarrow> metadata) \<Rightarrow>
   filesystem \<Rightarrow> jsstring \<Rightarrow> jsstring \<Rightarrow> (jsstring, channel) jsmap \<Rightarrow>
   (jsstring, user) jsmap \<Rightarrow> ignoreMessage \<Rightarrow> effect list \<times> (error + unit)" where
  "convertChannelMessages parseMessage getMetadata fs src dest channels users ignore =
     (let made = makeDestDir fs dest in
      case enumMessageJSONs fs src of
        Inl e \<Rightarrow> (made, Inl e)
      | Inr found \<Rightarrow>
          (let filePaths = sortDescending found in
           case convertFiles parseMessage getMetadata fs dest channels users ignore []
                  filePaths of
             (written, Inl e) \<Rightarrow> (made @ written, Inl e)
           | (written, Inr indexMd) \<Rightarrow> (made @ written @ writeIndex src dest indexMd, Inr ())))"

section \<open>Notions used in the statements\<close>

text \<open>
  The UTC day of a message, as the grouping loop computes it; the distinct elements of a
  list in the order of their first occurrence; the messages of all files that fall on one
  day; the files for which the conversion by source file emits a document; and the
  channel-join policy in the words of the specification.
\<close>

definition dateOf ::
  "(real \<Rightarrow> 'd) \<Rightarrow> ('d \<Rightarrow> jsstring \<Rightarrow> bool \<Rightarrow> jsstring) \<Rightarrow> message \<Rightarrow> jsstring" where
  "dateOf tsToDate formatDate message =
     formatDate (tsToDate (timeStamp message)) (str ''YYYY-MM-DD'') True"

fun firstOccurrences :: "'a list \<Rightarrow> 'a list" where
  "firstOccurrences [] = []"
| "firstOccurrences (x # xs) = x # [y \<leftarrow> firstOccurrences xs. y \<noteq> x]"

definition dayNames ::
  "(real \<Rightarrow> 'd) \<Rightarrow> ('d \<Rightarrow> jsstring \<Rightarrow> bool \<Rightarrow> jsstring) \<Rightarrow> ignoreMessage \<Rightarrow>
   message list \<Rightarrow> jsstring list" where
  "dayNames tsToDate formatDate ignore messages =
     firstOccurrences (map (dateOf tsToDate formatDate) (notIgnored ignore messages))"

definition dayGroup ::
  "(real \<Rightarrow> 'd) \<Rightarrow> ('d \<Rightarrow> jsstring \<Rightarrow> bool \<Rightarrow> jsstring) \<Rightarrow> ignoreMessage \<Rightarrow>
   message list \<Rightarrow> jsstring \<Rightarrow> message list" where
  "dayGroup tsToDate formatDate ignore messages d =
     [m \<leftarrow> notIgnored ignore messages. dateOf tsToDate formatDate m = d]"

definition emittedFiles ::
  "ignoreMessage \<Rightarrow> (jsstring \<Rightarrow> message list) \<Rightarrow> jsstring list \<Rightarrow> jsstring list" where
  "emittedFiles ignore msgs found =
     [fp \<leftarrow> sortDescending found. notIgnored ignore (msgs fp) \<noteq> []]"

definition droppedByPolicy :: "ignoreMessage \<Rightarrow> message \<Rightarrow> bool" where
  "droppedByPolicy ignore message =
     (channelLogin ignore = Some True \<and> subtype message = Some (str ''channel_join''))"

section \<open>A sample workspace\<close>

text \<open>
  Concrete values for the parameters and a small workspace, on which the conversions are
  evaluated: a channel directory \<open>in/general\<close> with the logs \<open>a.json\<close> (a plain message and
  a channel-join message) and \<open>a-b.json\<close> (a plain message of the same UTC day),
  \<open>channels.json\<close> and \<open>users.json\<close> with a repeated id each, and a file that holds an
  object. The sample parsers take the fields of a record from a JSON object.
\<close>

definition stringField :: "(jsstring \<times> json) list \<Rightarrow> jsstring \<Rightarrow> jsstring option" where
  "stringField props key = (case map_of props key of Some (JString s) \<Rightarrow> Some s | _ \<Rightarrow> None)"

definition sampleParseChannel :: "json \<Rightarrow> error + channel" where
  "sampleParseChannel v =
     (case v of
        JObject props \<Rightarrow>
          (case (stringField props (str ''id''), stringField props (str ''name'')) of
             (Some i, Some n) \<Rightarrow> Inr \<lparr>channel_id = i, channel_name = n\<rparr>
           | _ \<Rightarrow> Inl MalformedRecord)
      | _ \<Rightarrow> Inl MalformedRecord)"

definition sampleParseUser :: "json \<Rightarrow> error + user" where
  "sampleParseUser v =
     (case v of
        JObject props \<Rightarrow>
          (case (stringField props (str ''id''), stringField props (str ''name'')) of
             (Some i, Some n) \<Rightarrow>
               Inr \<lparr>user_id = i, user_name = n,
                    displayName = stringField props (str ''display_name''),
                    avatarURL = stringField props (str ''image'')\<rparr>
           | _ \<Rightarrow> Inl MalformedRecord)
      | _ \<Rightarrow> Inl MalformedRecord)"

definition sampleParseMessage :: "json \<Rightarrow> error + message" where
  "sampleParseMessage v =
     (case v of
        JObject props \<Rightarrow>
          (case (map_of props (str ''ts''), map_of props (str ''text'')) of
             (Some (JNumber ts), Some (JString t)) \<Rightarrow>
               Inr \<lparr>userID = stringField props (str ''user''), timeStamp = ts, msg_text = t,
                    subtype = stringField props (str ''subtype'')\<rparr>
           | _ \<Rightarrow> Inl MalformedRecord)
      | _ \<Rightarrow> Inl MalformedRecord)"

definition sampleGetMetadata :: "message \<Rightarrow> (jsstring, user) jsmap \<Rightarrow> metadata" where
  "sampleGetMetadata message users =
     (case userID message of
        None \<Rightarrow> \<lparr>meta_time = str ''13:43'', meta_imageURL = [], meta_username = []\<rparr>
      | Some u \<Rightarrow>
          (case mapGet users u of
             None \<Rightarrow> \<lparr>meta_time = str ''13:43'', meta_imageURL = [], meta_username = u\<rparr>
           | Some user \<Rightarrow>
               \<lparr>meta_time = str ''13:43'',
                meta_imageURL = (case avatarURL user of Some a \<Rightarrow> a | None \<Rightarrow> []),
                meta_username =
                  (case displayName user of Some n \<Rightarrow> n | None \<Rightarrow> user_name user)\<rparr>))"

definition sampleTsToDate :: "real \<Rightarrow> int" where
  "sampleTsToDate ts = \<lfloor>ts / 86400\<rfloor>"

definition sampleFormatDate :: "int \<Rightarrow> jsstring \<Rightarrow> bool \<Rightarrow> jsstring" where
  "sampleFormatDate day format utc =
     (if day = 0 then str ''1970-01-01''
      else if day = 1 then str ''1970-01-02''
      else str ''later'')"

definition sampleFs :: filesystem where
  "sampleFs = map_of
     [(str ''in/general'', Directory [str ''a.json'', str ''a-b.json'', str ''memo.txt'']),
      (str ''in/general/a.json'', File (Some (JArray
         [JObject [(str ''user'', JString (str ''U1'')), (str ''ts'', JNumber 10),
                   (str ''text'', JString (str ''one''))],
          JObject [(str ''user'', JString (str ''U1'')), (str ''ts'', JNumber 20),
                   (str ''subtype'', JString (str ''channel_join'')),
                   (str ''text'', JString (str ''joined''))]]))),
      (str ''in/general/a-b.json'', File (Some (JArray
         [JObject [(str ''user'', JString (str ''U2'')), (str ''ts'', JNumber 30),
                   (str ''text'', JString (str ''two''))]]))),
      (str ''in/channels.json'', File (Some (JArray
         [JObject [(str ''id'', JString (str ''C1'')), (str ''name'', JString (str ''old''))],
          JObject [(str ''id'', JString (str ''C2'')), (str ''name'', JString (str ''dev''))],
          JObject [(str ''id'', JString (str ''C1'')), (str ''name'', JString (str ''new''))]]))),
      (str ''in/users.json'', File (Some (JArray
         [JObject [(str ''id'', JString (str ''U1'')), (str ''name'', JString (str ''ann''))],
          JObject [(str ''id'', JString (str ''U1'')), (str ''name'', JString (str ''amy''))]]))),
      (str ''in/notes.json'', File (Some (JObject [])))]"

definition sampleUsers :: "(jsstring, user) jsmap" where
  "sampleUsers =
     [(str ''U1'', \<lparr>user_id = str ''U1'', user_name = str ''ann'', displayName = None,
                    avatarURL = Some (str ''x.png'')\<rparr>)]"

definition sampleMessages :: "jsstring \<Rightarrow> message list" where
  "sampleMessages filePath =
     (if filePath = str ''in/general/a.json'' then
        [\<lparr>userID = Some (str ''U1''), timeStamp = 10, msg_text = str ''one'', subtype = None\<rparr>,
         \<lparr>userID = Some (str ''U1''), timeStamp = 20, msg_text = str ''joined'',
          subtype = Some (str ''channel_join'')\<rparr>]
      else
        [\<lparr>userID = Some (str ''U2''), timeStamp = 30, msg_text = str ''two'', subtype = None\<rparr>])"

section \<open>Properties of the text transformer and the renderer\<close>




lemma rowsLoop_acc:
  "rowsLoop getMetadata channels users md messages =
     md @ concat (map (tableRow getMetadata channels users) messages)"
  by (induction messages arbitrary: md) simp_all

text \<open>
  C1 (the code departs from the claim). A mention \<open><@U2>\<close> of a user who is present in the
  user mapping is replaced by the \<^emph>\<open>sender's\<close> resolved username, which \<open>createBody\<close>
  receives as its second argument: the same body with the same user mapping gives
  \<open>`@alice`\<close> for the sender alice and \<open>`@carol`\<close> for the sender carol, and never the
  name \<open>bob\<close> or the display name \<open>Bobby\<close> of the mentioned user.
\<close>

theorem createBody_mention_takes_sender_name:
  "createBody
     \<lparr>userID = Some (str ''U1''), timeStamp = 0, msg_text = str ''hi <@U2>'', subtype = None\<rparr>
     (str ''alice'') []
     [(str ''U2'', \<lparr>user_id = str ''U2'', user_name = str ''bob'',
                    displayName = Some (str ''Bobby''), avatarURL = None\<rparr>)]
   = str ''hi `@alice`'' \<and>
   createBody
     \<lparr>userID = Some (str ''U3''), timeStamp = 0, msg_text = str ''hi <@U2>'', subtype = None\<rparr>
     (str ''carol'') []
     [(str ''U2'', \<lparr>user_id = str ''U2'', user_name = str ''bob'',
                    displayName = Some (str ''Bobby''), avatarURL = None\<rparr>)]
   = str ''hi `@carol`''"
  by (simp add: createBody_def str_def mapGet_def replaceNewlines_def isLineTerminator_def)




text \<open>
  C4 (the code departs from the claim). A channel reference \<open><#C9>\<close> whose id is absent
  from the channel mapping is replaced by \<open>`@C9`\<close>, with the mention prefix \<open>@\<close>, and not
  by \<open>`#C9`\<close>.
\<close>

theorem createBody_unknown_channel_gets_mention_prefix:
  "createBody
     \<lparr>userID = Some (str ''U1''), timeStamp = 0, msg_text = str ''see <#C9>'', subtype = None\<rparr>
     (str ''alice'') [] []
   = str ''see `@C9`'' \<and>
   str ''see `@C9`'' \<noteq> str ''see `#C9`''"
  by (simp add: createBody_def str_def mapGet_def replaceNewlines_def isLineTerminator_def)

text \<open>
  C6. The renderer emits the rows of the messages in input order, one per message, each
  \<open>|time|icon|username|body|\<close> followed by a newline; the icon cell is \<open>![](url)\<close> when the
  resolved image URL is not empty and empty otherwise; an empty sequence gives the empty
  string.
\<close>

theorem messagesToMarkdown_rows:
  "messagesToMarkdown getMetadata messages channels users =
     concat (map (\<lambda>m.
       str ''|'' @ meta_time (getMetadata m users) @ str ''|''
       @ (if meta_imageURL (getMetadata m users) = [] then []
          else str ''![]('' @ meta_imageURL (getMetadata m users) @ str '')'')
       @ str ''|'' @ meta_username (getMetadata m users) @ str ''|''
       @ createBody m (meta_username (getMetadata m users)) channels users
       @ str ''|\<newline>'') messages)
   \<and> messagesToMarkdown getMetadata [] channels users = []"
proof -
  have "tableRow getMetadata channels users = (\<lambda>m.
       str ''|'' @ meta_time (getMetadata m users) @ str ''|''
       @ (if meta_imageURL (getMetadata m users) = [] then []
          else str ''![]('' @ meta_imageURL (getMetadata m users) @ str '')'')
       @ str ''|'' @ meta_username (getMetadata m users) @ str ''|''
       @ createBody m (meta_username (getMetadata m users)) channels users
       @ str ''|\<newline>'')"
    by (rule ext) (simp add: tableRow_def Let_def)
  then show ?thesis
    by (simp add: messagesToMarkdown_def rowsLoop_acc)
qed

section \<open>Properties of the aggregator\<close>

subsection \<open>Maps\<close>

lemma mapGet_mapSet:
  "mapGet (mapSet k v m) k' = (if k' = k then Some v else mapGet m k')"
  by (induction m) (auto simp: mapGet_def)

lemma mapKeys_mapSet:
  "mapKeys (mapSet k v m) = (if k \<in> set (mapKeys m) then mapKeys m else mapKeys m @ [k])"
  by (induction m) (force simp: mapKeys_def split: if_splits)+

lemma distinct_mapSet:
  "distinct (mapKeys m) \<Longrightarrow> distinct (mapKeys (mapSet k v m))"
  by (simp add: mapKeys_mapSet)

lemma mapGet_None_iff:
  "mapGet m k = None \<longleftrightarrow> k \<notin> set (mapKeys m)"
  by (simp add: mapGet_def mapKeys_def map_of_eq_None_iff)

lemma mapGet_Nil: "mapGet [] k = None"
  by (simp add: mapGet_def)

lemma mapKeys_Nil: "mapKeys [] = []"
  by (simp add: mapKeys_def)

lemma mapGet_foldl_mapSet:
  "mapGet (foldl (\<lambda>m x. mapSet (key x) x m) m xs) k =
     (if [x \<leftarrow> xs. key x = k] = [] then mapGet m k else Some (last [x \<leftarrow> xs. key x = k]))"
  by (induction xs arbitrary: m) (auto simp: mapGet_mapSet)

lemma mapKeys_foldl_mapSet:
  "set (mapKeys (foldl (\<lambda>m x. mapSet (key x) x m) m xs)) = set (mapKeys m) \<union> key ` set xs"
  by (induction xs arbitrary: m) (auto simp: mapKeys_mapSet)

lemma distinct_foldl_mapSet:
  "distinct (mapKeys m) \<Longrightarrow> distinct (mapKeys (foldl (\<lambda>m x. mapSet (key x) x m) m xs))"
  by (induction xs arbitrary: m) (auto simp: distinct_mapSet)

subsection \<open>Reading\<close>

lemma readChannelsLoop_all:
  "map parseChannel vs = map Inr cs \<Longrightarrow>
   readChannelsLoop parseChannel m vs
     = Inr (foldl (\<lambda>m c. mapSet (channel_id c) c m) m cs)"
  by (induction vs arbitrary: m cs) auto

lemma readUsersLoop_all:
  "map parseUser vs = map Inr parsed \<Longrightarrow>
   readUsersLoop parseUser m vs = Inr (foldl (\<lambda>m u. mapSet (user_id u) u m) m parsed)"
  by (induction vs arbitrary: m parsed) auto


subsection \<open>Grouping by day\<close>

lemma groupMessages_append:
  "groupMessages td fd ig logs (a @ b) = groupMessages td fd ig (groupMessages td fd ig logs a) b"
  by (induction a arbitrary: logs) (auto simp: Let_def split: option.splits)

lemma groupFiles_concat:
  assumes "\<forall>fp\<in>set fps. readMessages pm fs fp = Inr (msgs fp)"
  shows "groupFiles pm td fd fs ig logs fps
         = Inr (groupMessages td fd ig logs (concat (map msgs fps)))"
  using assms
  by (induction fps arbitrary: logs) (simp_all add: groupMessages_append)

lemma mapGet_groupMessages:
  "mapGet (groupMessages td fd ig logs ms) d =
     (case mapGet logs d of
        Some old \<Rightarrow> Some (old @ dayGroup td fd ig ms d)
      | None \<Rightarrow> (if dayGroup td fd ig ms d = [] then None else Some (dayGroup td fd ig ms d)))"
proof (induction ms arbitrary: logs)
  case Nil
  then show ?case by (simp add: dayGroup_def notIgnored_def split: option.splits)
next
  case (Cons m ms)
  show ?case
  proof (cases "isIgnore m ig")
    case True
    then show ?thesis
      using Cons [of logs] by (auto simp: dayGroup_def notIgnored_def split: option.splits)
  next
    case False
    then show ?thesis
      using Cons
      by (auto simp: Let_def mapGet_mapSet dateOf_def dayGroup_def notIgnored_def
               split: option.splits)
  qed
qed

lemma set_firstOccurrences: "set (firstOccurrences xs) = set xs"
  by (induction xs) auto

lemma distinct_firstOccurrences: "distinct (firstOccurrences xs)"
  by (induction xs) (auto simp: set_firstOccurrences)

lemma mapKeys_groupMessages:
  "mapKeys (groupMessages td fd ig logs ms) =
     mapKeys logs @ [d \<leftarrow> dayNames td fd ig ms. d \<notin> set (mapKeys logs)]"
proof (induction ms arbitrary: logs)
  case Nil
  then show ?case by (simp add: dayNames_def notIgnored_def)
next
  case (Cons m ms)
  show ?case
  proof (cases "isIgnore m ig")
    case True
    then show ?thesis using Cons [of logs] by (simp add: dayNames_def notIgnored_def)
  next
    case False
    let ?d = "dateOf td fd m"
    have names: "dayNames td fd ig (m # ms) = ?d # [y \<leftarrow> dayNames td fd ig ms. y \<noteq> ?d]"
      using False by (simp add: dayNames_def notIgnored_def)
    show ?thesis
    proof (cases "mapGet logs ?d")
      case None
      then have notin: "?d \<notin> set (mapKeys logs)"
        by (simp add: mapGet_None_iff)
      have "mapKeys (groupMessages td fd ig logs (m # ms))
            = mapKeys (groupMessages td fd ig (mapSet ?d [m] logs) ms)"
        using False None by (simp add: dateOf_def Let_def)
      also have "\<dots> = (mapKeys logs @ [?d]) @
                  [d \<leftarrow> dayNames td fd ig ms. d \<notin> set (mapKeys logs @ [?d])]"
        using notin by (simp add: Cons mapKeys_mapSet)
      also have "\<dots> = mapKeys logs @ [d \<leftarrow> dayNames td fd ig (m # ms). d \<notin> set (mapKeys logs)]"
        using notin by (auto simp: names intro: filter_cong)
      finally show ?thesis .
    next
      case (Some targets)
      then have isin: "?d \<in> set (mapKeys logs)"
        using mapGet_None_iff [of logs ?d] by auto
      have "mapKeys (groupMessages td fd ig logs (m # ms))
            = mapKeys (groupMessages td fd ig (mapSet ?d (targets @ [m]) logs) ms)"
        using False Some by (simp add: dateOf_def Let_def)
      also have "\<dots> = mapKeys logs @ [d \<leftarrow> dayNames td fd ig ms. d \<notin> set (mapKeys logs)]"
        using isin by (simp add: Cons mapKeys_mapSet)
      also have "\<dots> = mapKeys logs @ [d \<leftarrow> dayNames td fd ig (m # ms). d \<notin> set (mapKeys logs)]"
        using isin by (auto simp: names intro: filter_cong)
      finally show ?thesis .
    qed
  qed
qed

lemma outputLogs_all:
  assumes "\<forall>k\<in>set ks. mapGet logs k \<noteq> None"
  shows "outputLogs gm chs us dest logs acc ks =
           (map (\<lambda>k. writeLog gm chs us dest k (the (mapGet logs k))) ks, Inr (acc @ ks))"
  using assms
  by (induction ks arbitrary: acc) (auto split: option.splits)

lemma foldl_indexLine:
  "foldl (\<lambda>indexMd logName. indexMd @ indexLine logName) acc names
     = acc @ concat (map indexLine names)"
  by (induction names arbitrary: acc) simp_all

lemma convertChannelMessagesSameDay_effects:
  assumes "enumMessageJSONs fs src = Inr found"
    and "\<forall>fp\<in>set found. readMessages pm fs fp = Inr (msgs fp)"
  shows "convertChannelMessagesSameDay pm gm td fd fs src dest chs us ig =
           (makeDestDir fs dest
            @ map (\<lambda>d. writeLog gm chs us dest d (dayGroup td fd ig (concat (map msgs found)) d))
                (dayNames td fd ig (concat (map msgs found)))
            @ writeIndex src dest
                (concat (map indexLine
                   (sortDescending (dayNames td fd ig (concat (map msgs found)))))),
            Inr ())"
proof -
  let ?all = "concat (map msgs found)"
  let ?logs = "groupMessages td fd ig [] ?all"
  let ?names = "dayNames td fd ig ?all"
  have logs: "groupFiles pm td fd fs ig [] found = Inr ?logs"
    using assms(2) by (rule groupFiles_concat)
  have keys: "mapKeys ?logs = ?names"
    by (simp add: mapKeys_groupMessages mapKeys_Nil)
  have all_some: "\<forall>k\<in>set (mapKeys ?logs). mapGet ?logs k \<noteq> None"
    by (simp add: mapGet_None_iff)
  have get: "the (mapGet ?logs d) = dayGroup td fd ig ?all d" if "d \<in> set ?names" for d
  proof -
    have "mapGet ?logs d \<noteq> None"
      using that keys all_some by simp
    then show ?thesis
      by (simp add: mapGet_groupMessages mapGet_Nil split: if_splits)
  qed
  have same: "map (\<lambda>k. writeLog gm chs us dest k (the (mapGet ?logs k))) ?names =
          map (\<lambda>d. writeLog gm chs us dest d (dayGroup td fd ig ?all d)) ?names"
    by (rule map_cong) (simp_all add: get)
  have "outputLogs gm chs us dest ?logs [] (mapKeys ?logs) =
          (map (\<lambda>k. writeLog gm chs us dest k (the (mapGet ?logs k))) (mapKeys ?logs),
           Inr ([] @ mapKeys ?logs))"
    using all_some by (rule outputLogs_all)
  then have out: "outputLogs gm chs us dest ?logs [] (mapKeys ?logs) =
          (map (\<lambda>d. writeLog gm chs us dest d (dayGroup td fd ig ?all d)) ?names, Inr ?names)"
    by (simp only: keys same append_Nil)
  show ?thesis
    unfolding convertChannelMessagesSameDay_def
    by (simp only: Let_def assms(1) logs out sum.case prod.case foldl_indexLine append_Nil)
qed

subsection \<open>Grouping by source file\<close>

lemma convertFiles_all:
  assumes "\<forall>fp\<in>set fps. readMessages pm fs fp = Inr (msgs fp)"
  shows "convertFiles pm gm fs dest chs us ig idx fps =
           (map (\<lambda>fp. writeLog gm chs us dest (basename fp (str ''.json''))
                        (notIgnored ig (msgs fp)))
              [fp \<leftarrow> fps. notIgnored ig (msgs fp) \<noteq> []],
            Inr (idx @ concat (map (\<lambda>fp. indexLine (basename fp (str ''.json'')))
              [fp \<leftarrow> fps. notIgnored ig (msgs fp) \<noteq> []])))"
  using assms
  by (induction fps arbitrary: idx) (auto simp: Let_def)

lemma convertChannelMessages_effects:
  assumes "enumMessageJSONs fs src = Inr found"
    and "\<forall>fp\<in>set found. readMessages pm fs fp = Inr (msgs fp)"
  shows "convertChannelMessages pm gm fs src dest chs us ig =
           (makeDestDir fs dest
            @ map (\<lambda>fp. writeLog gm chs us dest (basename fp (str ''.json''))
                          (notIgnored ig (msgs fp)))
                (emittedFiles ig msgs found)
            @ writeIndex src dest
                (concat (map (\<lambda>fp. indexLine (basename fp (str ''.json'')))
                   (emittedFiles ig msgs found))),
            Inr ())"
proof -
  have "\<forall>fp\<in>set (sortDescending found). readMessages pm fs fp = Inr (msgs fp)"
    using assms(2) by (simp add: sortDescending_def)
  from convertFiles_all [OF this, of gm dest chs us ig "[]"] assms(1)
  show ?thesis
    by (simp add: convertChannelMessages_def emittedFiles_def)
qed

lemma indexLine_not_Nil: "indexLine n \<noteq> []"
  by (simp add: indexLine_def str_def)

lemma sorted_sortDescending: "sorted_wrt (\<lambda>a b. b \<le> a) (sortDescending xs)"
  by (simp add: sortDescending_def sorted_wrt_rev)

lemma set_sortDescending: "set (sortDescending xs) = set xs"
  by (simp add: sortDescending_def)

lemma strict_sortDescending:
  "distinct xs \<Longrightarrow> sorted_wrt (\<lambda>a b. b < a) (sortDescending xs)"
  by (simp add: sortDescending_def sorted_wrt_rev strict_sorted_iff)

subsection \<open>Evaluating the sample workspace\<close>

lemmas sample_defs = sampleFs_def sampleParseMessage_def sampleParseChannel_def
  sampleParseUser_def sampleGetMetadata_def sampleTsToDate_def sampleFormatDate_def
  sampleUsers_def sampleMessages_def stringField_def

lemmas reading_defs = enumMessageJSONs_def readMessages_def readArrayFromJSON_def
  readChannels_def readUsers_def pathJoin_def endsWith_def str_def Let_def

lemmas conversion_defs = convertChannelMessages_def convertChannelMessagesSameDay_def
  makeDestDir_def writeLog_def writeIndex_def indexLine_def messagesToMarkdown_def
  tableRow_def createBody_def replaceNewlines_def isLineTerminator_def mapGet_def
  mapKeys_def isIgnore_def notIgnored_def basename_def lastComponent_def sortDescending_def

lemma sample_enum:
  "enumMessageJSONs sampleFs (str ''in/general'')
     = Inr [str ''in/general/a.json'', str ''in/general/a-b.json'']"
  by (simp add: sample_defs reading_defs)

lemma sample_reads:
  "\<forall>fp\<in>set [str ''in/general/a.json'', str ''in/general/a-b.json''].
     readMessages sampleParseMessage sampleFs fp = Inr (sampleMessages fp)"
  by (simp add: sample_defs reading_defs)

text \<open>
  C2 (the code departs from the claim). On the sample workspace both conversions write
  documents that consist of the heading \<open># name\<close>, a blank line and then the message
  rows at once: the two header lines \<open>|Time|Icon|Name|Message|\<close> and
  \<open>|---|---|---|---|\<close> are in no document, in either grouping mode.
\<close>

theorem documents_have_no_table_header:
  "convertChannelMessages sampleParseMessage sampleGetMetadata sampleFs
     (str ''in/general'') (str ''out/general'') [] sampleUsers \<lparr>channelLogin = Some True\<rparr>
   = ([Mkdir (str ''out/general''),
       WriteFile (str ''out/general/a.md'')
         (str ''# a\<newline>\<newline>|13:43|![](x.png)|ann|one|\<newline>''),
       WriteFile (str ''out/general/a-b.md'')
         (str ''# a-b\<newline>\<newline>|13:43||U2|two|\<newline>''),
       WriteFile (str ''out/general/index.md'')
         (str ''# general\<newline>\<newline>- [a](./a.md)\<newline>- [a-b](./a-b.md)\<newline>'')],
      Inr ())
   \<and>
   convertChannelMessagesSameDay sampleParseMessage sampleGetMetadata sampleTsToDate
     sampleFormatDate sampleFs
     (str ''in/general'') (str ''out/general'') [] sampleUsers \<lparr>channelLogin = Some True\<rparr>
   = ([Mkdir (str ''out/general''),
       WriteFile (str ''out/general/1970-01-01.md'')
         (str ''# 1970-01-01\<newline>\<newline>|13:43|![](x.png)|ann|one|\<newline>|13:43||U2|two|\<newline>''),
       WriteFile (str ''out/general/index.md'')
         (str ''# general\<newline>\<newline>- [1970-01-01](./1970-01-01.md)\<newline>'')],
      Inr ())"
  by (simp add: sample_defs reading_defs conversion_defs)



text \<open>
  C7 fails as stated when grouping by source file: the files are sorted by their paths,
  extension included, and \<open>a.json\<close> sorts above \<open>a-b.json\<close> because \<open>.\<close> is greater than
  \<open>-\<close>. The index of the sample workspace lists \<open>a\<close> before \<open>a-b\<close>, although \<open>a\<close> is
  the smaller name.
\<close>

theorem index_order_counterexample:
  "last (fst (convertChannelMessages sampleParseMessage sampleGetMetadata sampleFs
       (str ''in/general'') (str ''out/general'') [] sampleUsers \<lparr>channelLogin = None\<rparr>))
   = WriteFile (str ''out/general/index.md'')
       (str ''# general\<newline>\<newline>- [a](./a.md)\<newline>- [a-b](./a-b.md)\<newline>'')
   \<and> str ''a'' < str ''a-b''"
  by (simp add: sample_defs reading_defs conversion_defs)

text \<open>
  C7 (amended). In a channel whose files can all be read, either conversion ends without
  an error and writes \<open>index.md\<close> last, exactly when it has written at least one
  document. The index is the heading \<open># \<close> with the base name of the channel directory,
  a blank line, and one link per written document. Grouping by source file lists the links
  in the order the documents are written, which is the descending order of the paths of
  the source files; grouping by UTC day lists them in the strictly descending order of
  the names of the groups.
\<close>

theorem index_document:
  assumes enum: "enumMessageJSONs fs src = Inr found"
    and reads: "\<forall>fp\<in>set found. readMessages pm fs fp = Inr (msgs fp)"
  shows "convertChannelMessages pm gm fs src dest chs us ig =
           (makeDestDir fs dest
            @ map (\<lambda>fp. writeLog gm chs us dest (basename fp (str ''.json''))
                          (notIgnored ig (msgs fp)))
                (emittedFiles ig msgs found)
            @ (if emittedFiles ig msgs found = [] then []
               else [WriteFile (pathJoin dest (str ''index.md''))
                       (str ''# '' @ basename src [] @ str ''\<newline>\<newline>''
                        @ concat (map (\<lambda>fp. indexLine (basename fp (str ''.json'')))
                            (emittedFiles ig msgs found)))]),
            Inr ())
       \<and> sorted_wrt (\<lambda>a b. b \<le> a) (emittedFiles ig msgs found)
       \<and> convertChannelMessagesSameDay pm gm td fd fs src dest chs us ig =
           (makeDestDir fs dest
            @ map (\<lambda>d. writeLog gm chs us dest d (dayGroup td fd ig (concat (map msgs found)) d))
                (dayNames td fd ig (concat (map msgs found)))
            @ (if dayNames td fd ig (concat (map msgs found)) = [] then []
               else [WriteFile (pathJoin dest (str ''index.md''))
                       (str ''# '' @ basename src [] @ str ''\<newline>\<newline>''
                        @ concat (map indexLine
                            (sortDescending (dayNames td fd ig (concat (map msgs found))))))]),
            Inr ())
       \<and> sorted_wrt (\<lambda>a b. b < a) (sortDescending (dayNames td fd ig (concat (map msgs found))))
       \<and> set (sortDescending (dayNames td fd ig (concat (map msgs found))))
           = set (dayNames td fd ig (concat (map msgs found)))
       \<and> length (sortDescending (dayNames td fd ig (concat (map msgs found))))
           = length (dayNames td fd ig (concat (map msgs found)))"
proof (intro conjI)
  show "convertChannelMessages pm gm fs src dest chs us ig =
           (makeDestDir fs dest
            @ map (\<lambda>fp. writeLog gm chs us dest (basename fp (str ''.json''))
                          (notIgnored ig (msgs fp)))
                (emittedFiles ig msgs found)
            @ (if emittedFiles ig msgs found = [] then []
               else [WriteFile (pathJoin dest (str ''index.md''))
                       (str ''# '' @ basename src [] @ str ''\<newline>\<newline>''
                        @ concat (map (\<lambda>fp. indexLine (basename fp (str ''.json'')))
                            (emittedFiles ig msgs found)))]),
            Inr ())"
    unfolding convertChannelMessages_effects [OF enum reads]
    by (cases "emittedFiles ig msgs found") (simp_all add: writeIndex_def indexLine_not_Nil)
next
  show "sorted_wrt (\<lambda>a b. b \<le> a) (emittedFiles ig msgs found)"
    unfolding emittedFiles_def
    by (rule sorted_wrt_filter) (rule sorted_sortDescending)
next
  let ?names = "dayNames td fd ig (concat (map msgs found))"
  have "sortDescending ?names = [] \<longleftrightarrow> ?names = []"
    using set_sortDescending [of ?names] by (metis set_empty)
  then have "concat (map indexLine (sortDescending ?names)) = [] \<longleftrightarrow> ?names = []"
    by (cases "sortDescending ?names") (simp_all add: indexLine_not_Nil)
  then show "convertChannelMessagesSameDay pm gm td fd fs src dest chs us ig =
           (makeDestDir fs dest
            @ map (\<lambda>d. writeLog gm chs us dest d (dayGroup td fd ig (concat (map msgs found)) d))
                ?names
            @ (if ?names = [] then []
               else [WriteFile (pathJoin dest (str ''index.md''))
                       (str ''# '' @ basename src [] @ str ''\<newline>\<newline>''
                        @ concat (map indexLine (sortDescending ?names)))]),
            Inr ())"
    unfolding convertChannelMessagesSameDay_effects [OF enum reads]
    by (simp add: writeIndex_def)
next
  show "sorted_wrt (\<lambda>a b. b < a) (sortDescending (dayNames td fd ig (concat (map msgs found))))"
    by (rule strict_sortDescending) (simp add: dayNames_def distinct_firstOccurrences)
next
  show "set (sortDescending (dayNames td fd ig (concat (map msgs found))))
          = set (dayNames td fd ig (concat (map msgs found)))"
    by (rule set_sortDescending)
next
  show "length (sortDescending (dayNames td fd ig (concat (map msgs found))))
          = length (dayNames td fd ig (concat (map msgs found)))"
    by (simp add: sortDescending_def)
qed

theorem index_document_witness:
  "convertChannelMessages sampleParseMessage sampleGetMetadata sampleFs
     (str ''in/general'') (str ''out/general'') [] sampleUsers \<lparr>channelLogin = None\<rparr>
   = ([Mkdir (str ''out/general''),
       WriteFile (str ''out/general/a.md'')
         (str ''# a\<newline>\<newline>|13:43|![](x.png)|ann|one|\<newline>|13:43|![](x.png)|ann|joined|\<newline>''),
       WriteFile (str ''out/general/a-b.md'')
         (str ''# a-b\<newline>\<newline>|13:43||U2|two|\<newline>''),
       WriteFile (str ''out/general/index.md'')
         (str ''# general\<newline>\<newline>- [a](./a.md)\<newline>- [a-b](./a-b.md)\<newline>'')],
      Inr ())
   \<and> str ''in/general/a-b.json'' \<le> str ''in/general/a.json''
   \<and> last (fst (convertChannelMessagesSameDay sampleParseMessage sampleGetMetadata
         sampleTsToDate sampleFormatDate sampleFs (str ''in/general'') (str ''out/general'') []
         sampleUsers \<lparr>channelLogin = None\<rparr>))
     = WriteFile (str ''out/general/index.md'')
         (str ''# general\<newline>\<newline>- [1970-01-01](./1970-01-01.md)\<newline>'')"
  using index_document
    [where gm = sampleGetMetadata and chs = "[]" and us = sampleUsers
       and dest = "str ''out/general''" and ig = "\<lparr>channelLogin = None\<rparr>"
       and td = sampleTsToDate and fd = sampleFormatDate,
     OF sample_enum sample_reads]
  by (simp add: sample_defs reading_defs conversion_defs emittedFiles_def dayNames_def
      dayGroup_def dateOf_def)

lemma isIgnore_policy: "isIgnore m ig = droppedByPolicy ig m"
  by (simp add: isIgnore_def droppedByPolicy_def)

text \<open>
  C8. In a channel whose files can all be read, both conversions render exactly the
  messages that the channel-join policy does not drop, and the policy drops a message
  only when \<open>ignore.channelLogin\<close> is \<open>true\<close> and the subtype of the message is
  \<open>channel_join\<close>: a document by source file holds the kept messages of its file (and
  is written when there is at least one), a document by UTC day holds the kept messages
  of its day.
\<close>

theorem channel_join_policy:
  assumes enum: "enumMessageJSONs fs src = Inr found"
    and reads: "\<forall>fp\<in>set found. readMessages pm fs fp = Inr (msgs fp)"
  shows "convertChannelMessages pm gm fs src dest chs us ig =
           (makeDestDir fs dest
            @ map (\<lambda>fp. writeLog gm chs us dest (basename fp (str ''.json''))
                          [m \<leftarrow> msgs fp. \<not> droppedByPolicy ig m])
                [fp \<leftarrow> sortDescending found. [m \<leftarrow> msgs fp. \<not> droppedByPolicy ig m] \<noteq> []]
            @ writeIndex src dest
                (concat (map (\<lambda>fp. indexLine (basename fp (str ''.json'')))
                   [fp \<leftarrow> sortDescending found. [m \<leftarrow> msgs fp. \<not> droppedByPolicy ig m] \<noteq> []])),
            Inr ())
       \<and> convertChannelMessagesSameDay pm gm td fd fs src dest chs us ig =
           (makeDestDir fs dest
            @ map (\<lambda>d. writeLog gm chs us dest d
                         [m \<leftarrow> concat (map msgs found).
                            \<not> droppedByPolicy ig m \<and> dateOf td fd m = d])
                (firstOccurrences (map (dateOf td fd)
                   [m \<leftarrow> concat (map msgs found). \<not> droppedByPolicy ig m]))
            @ writeIndex src dest
                (concat (map indexLine (sortDescending (firstOccurrences (map (dateOf td fd)
                   [m \<leftarrow> concat (map msgs found). \<not> droppedByPolicy ig m]))))),
            Inr ())"
proof -
  have kept: "notIgnored ig ms = [m \<leftarrow> ms. \<not> droppedByPolicy ig m]" for ms
    by (simp add: notIgnored_def isIgnore_policy)
  have group: "dayGroup td fd ig ms d = [m \<leftarrow> ms. \<not> droppedByPolicy ig m \<and> dateOf td fd m = d]"
    for ms d
    by (simp add: dayGroup_def kept conj_commute)
  show ?thesis
    unfolding convertChannelMessages_effects [OF enum reads]
      convertChannelMessagesSameDay_effects [OF enum reads]
    by (simp add: emittedFiles_def dayNames_def kept group)
qed

theorem channel_join_policy_witness:
  "convertChannelMessagesSameDay sampleParseMessage sampleGetMetadata sampleTsToDate
     sampleFormatDate sampleFs (str ''in/general'') (str ''out/general'') [] sampleUsers
     \<lparr>channelLogin = Some True\<rparr>
   = ([Mkdir (str ''out/general''),
       WriteFile (str ''out/general/1970-01-01.md'')
         (str ''# 1970-01-01\<newline>\<newline>|13:43|![](x.png)|ann|one|\<newline>|13:43||U2|two|\<newline>''),
       WriteFile (str ''out/general/index.md'')
         (str ''# general\<newline>\<newline>- [1970-01-01](./1970-01-01.md)\<newline>'')],
      Inr ())
   \<and> convertChannelMessagesSameDay sampleParseMessage sampleGetMetadata sampleTsToDate
     sampleFormatDate sampleFs (str ''in/general'') (str ''out/general'') [] sampleUsers
     \<lparr>channelLogin = Some False\<rparr>
   = ([Mkdir (str ''out/general''),
       WriteFile (str ''out/general/1970-01-01.md'')
         (str ''# 1970-01-01\<newline>\<newline>|13:43|![](x.png)|ann|one|\<newline>|13:43|![](x.png)|ann|joined|\<newline>|13:43||U2|two|\<newline>''),
       WriteFile (str ''out/general/index.md'')
         (str ''# general\<newline>\<newline>- [1970-01-01](./1970-01-01.md)\<newline>'')],
      Inr ())"
  using channel_join_policy
    [where gm = sampleGetMetadata and chs = "[]" and us = sampleUsers
       and dest = "str ''out/general''" and ig = "\<lparr>channelLogin = Some True\<rparr>"
       and td = sampleTsToDate and fd = sampleFormatDate,
     OF sample_enum sample_reads]
    channel_join_policy
    [where gm = sampleGetMetadata and chs = "[]" and us = sampleUsers
       and dest = "str ''out/general''" and ig = "\<lparr>channelLogin = Some False\<rparr>"
       and td = sampleTsToDate and fd = sampleFormatDate,
     OF sample_enum sample_reads]
  by (simp add: sample_defs reading_defs conversion_defs droppedByPolicy_def dateOf_def)

text \<open>
  C9. When \<open>channels.json\<close> (respectively \<open>users.json\<close>) does not exist in the workspace
  directory, \<open>readChannels\<close> (respectively \<open>readUsers\<close>) ends with the error "File does
  not exist" and returns no mapping; reading a message file that does not exist ends
  with the same error, and reading one whose JSON content is not an array ends with
  the error "Data is not an array".
\<close>

theorem missing_sources_raise:
  "(fs (pathJoin dir (str ''channels.json'')) = None \<longrightarrow>
      readChannels parseChannel fs dir
        = Inl (FileDoesNotExist (pathJoin dir (str ''channels.json''))))
   \<and> (fs (pathJoin dir (str ''users.json'')) = None \<longrightarrow>
      readUsers parseUser fs dir = Inl (FileDoesNotExist (pathJoin dir (str ''users.json''))))
   \<and> (fs filePath = None \<longrightarrow>
      readMessages parseMessage fs filePath = Inl (FileDoesNotExist filePath))
   \<and> (fs filePath = Some (File (Some content)) \<and> \<not> isArray content \<longrightarrow>
      readMessages parseMessage fs filePath = Inl DataIsNotAnArray
      \<and> readArrayFromJSON fs filePath = Inl DataIsNotAnArray)"
  by (simp add: readChannels_def readUsers_def readMessages_def readArrayFromJSON_def)

theorem missing_sources_raise_witness:
  "readChannels sampleParseChannel sampleFs (str ''in/general'')
     = Inl (FileDoesNotExist (str ''in/general/channels.json''))
   \<and> readUsers sampleParseUser sampleFs (str ''in/general'')
     = Inl (FileDoesNotExist (str ''in/general/users.json''))
   \<and> readMessages sampleParseMessage sampleFs (str ''in/general/b.json'')
     = Inl (FileDoesNotExist (str ''in/general/b.json''))
   \<and> readMessages sampleParseMessage sampleFs (str ''in/notes.json'') = Inl DataIsNotAnArray"
  using missing_sources_raise
    [where fs = sampleFs and dir = "str ''in/general''" and parseChannel = sampleParseChannel
       and parseUser = sampleParseUser and filePath = "str ''in/general/b.json''"
       and parseMessage = sampleParseMessage and content = "JObject []"]
    missing_sources_raise
    [where fs = sampleFs and dir = "str ''in/general''" and parseChannel = sampleParseChannel
       and parseUser = sampleParseUser and filePath = "str ''in/notes.json''"
       and parseMessage = sampleParseMessage and content = "JObject []"]
  by (simp add: sampleFs_def pathJoin_def str_def)

text \<open>
  C10. When the metadata file is an array whose records all parse, \<open>readChannels\<close>
  (respectively \<open>readUsers\<close>) returns a mapping whose keys are distinct and are exactly
  the ids of the parsed records, and whose entry for an id is the entity parsed from the
  last record with that id.
\<close>

theorem repeated_ids_last_wins:
  assumes "readArrayFromJSON fs (pathJoin dir (str ''channels.json'')) = Inr rawChannels"
    and "map parseChannel rawChannels = map Inr cs"
    and "readArrayFromJSON fs (pathJoin dir (str ''users.json'')) = Inr rawUsers"
    and "map parseUser rawUsers = map Inr parsed"
  shows "(\<exists>channels. readChannels parseChannel fs dir = Inr channels
            \<and> distinct (mapKeys channels)
            \<and> set (mapKeys channels) = channel_id ` set cs
            \<and> (\<forall>c\<in>set cs. mapGet channels (channel_id c)
                  = Some (last [c' \<leftarrow> cs. channel_id c' = channel_id c])))
       \<and> (\<exists>users. readUsers parseUser fs dir = Inr users
            \<and> distinct (mapKeys users)
            \<and> set (mapKeys users) = user_id ` set parsed
            \<and> (\<forall>u\<in>set parsed. mapGet users (user_id u)
                  = Some (last [u' \<leftarrow> parsed. user_id u' = user_id u])))"
proof (intro conjI)
  let ?channels = "foldl (\<lambda>m c. mapSet (channel_id c) c m) [] cs"
  have "readChannels parseChannel fs dir = Inr ?channels"
    using assms(1,2) by (simp add: readChannels_def readChannelsLoop_all)
  moreover have "distinct (mapKeys ?channels)"
    by (rule distinct_foldl_mapSet) (simp add: mapKeys_Nil)
  moreover have "set (mapKeys ?channels) = channel_id ` set cs"
    by (simp add: mapKeys_foldl_mapSet mapKeys_Nil)
  moreover have "\<forall>c\<in>set cs. mapGet ?channels (channel_id c)
                  = Some (last [c' \<leftarrow> cs. channel_id c' = channel_id c])"
    by (auto simp: mapGet_foldl_mapSet filter_empty_conv)
  ultimately show "\<exists>channels. readChannels parseChannel fs dir = Inr channels
            \<and> distinct (mapKeys channels)
            \<and> set (mapKeys channels) = channel_id ` set cs
            \<and> (\<forall>c\<in>set cs. mapGet channels (channel_id c)
                  = Some (last [c' \<leftarrow> cs. channel_id c' = channel_id c]))"
    by blast
next
  let ?users = "foldl (\<lambda>m u. mapSet (user_id u) u m) [] parsed"
  have "readUsers parseUser fs dir = Inr ?users"
    using assms(3,4) by (simp add: readUsers_def readUsersLoop_all)
  moreover have "distinct (mapKeys ?users)"
    by (rule distinct_foldl_mapSet) (simp add: mapKeys_Nil)
  moreover have "set (mapKeys ?users) = user_id ` set parsed"
    by (simp add: mapKeys_foldl_mapSet mapKeys_Nil)
  moreover have "\<forall>u\<in>set parsed. mapGet ?users (user_id u)
                  = Some (last [u' \<leftarrow> parsed. user_id u' = user_id u])"
    by (auto simp: mapGet_foldl_mapSet filter_empty_conv)
  ultimately show "\<exists>users. readUsers parseUser fs dir = Inr users
            \<and> distinct (mapKeys users)
            \<and> set (mapKeys users) = user_id ` set parsed
            \<and> (\<forall>u\<in>set parsed. mapGet users (user_id u)
                  = Some (last [u' \<leftarrow> parsed. user_id u' = user_id u]))"
    by blast
qed

theorem repeated_ids_last_wins_witness:
  "(\<exists>channels. readChannels sampleParseChannel sampleFs (str ''in'') = Inr channels
      \<and> distinct (mapKeys channels)
      \<and> set (mapKeys channels) = {str ''C1'', str ''C2''}
      \<and> mapGet channels (str ''C1'')
          = Some \<lparr>channel_id = str ''C1'', channel_name = str ''new''\<rparr>
      \<and> mapGet channels (str ''C2'')
          = Some \<lparr>channel_id = str ''C2'', channel_name = str ''dev''\<rparr>)
   \<and> (\<exists>users. readUsers sampleParseUser sampleFs (str ''in'') = Inr users
      \<and> distinct (mapKeys users)
      \<and> set (mapKeys users) = {str ''U1''}
      \<and> mapGet users (str ''U1'')
          = Some \<lparr>user_id = str ''U1'', user_name = str ''amy'', displayName = None,
                   avatarURL = None\<rparr>)"
proof -
  have rawChannels: "readArrayFromJSON sampleFs (pathJoin (str ''in'') (str ''channels.json''))
      = Inr [JObject [(str ''id'', JString (str ''C1'')), (str ''name'', JString (str ''old''))],
             JObject [(str ''id'', JString (str ''C2'')), (str ''name'', JString (str ''dev''))],
             JObject [(str ''id'', JString (str ''C1'')), (str ''name'', JString (str ''new''))]]"
    by (simp add: sampleFs_def readArrayFromJSON_def pathJoin_def str_def)
  have parsedChannels: "map sampleParseChannel
       [JObject [(str ''id'', JString (str ''C1'')), (str ''name'', JString (str ''old''))],
        JObject [(str ''id'', JString (str ''C2'')), (str ''name'', JString (str ''dev''))],
        JObject [(str ''id'', JString (str ''C1'')), (str ''name'', JString (str ''new''))]]
      = map Inr [\<lparr>channel_id = str ''C1'', channel_name = str ''old''\<rparr>,
                 \<lparr>channel_id = str ''C2'', channel_name = str ''dev''\<rparr>,
                 \<lparr>channel_id = str ''C1'', channel_name = str ''new''\<rparr>]"
    by (simp add: sampleParseChannel_def stringField_def str_def)
  have rawUsers: "readArrayFromJSON sampleFs (pathJoin (str ''in'') (str ''users.json''))
      = Inr [JObject [(str ''id'', JString (str ''U1'')), (str ''name'', JString (str ''ann''))],
             JObject [(str ''id'', JString (str ''U1'')), (str ''name'', JString (str ''amy''))]]"
    by (simp add: sampleFs_def readArrayFromJSON_def pathJoin_def str_def)
  have parsedUsers: "map sampleParseUser
       [JObject [(str ''id'', JString (str ''U1'')), (str ''name'', JString (str ''ann''))],
        JObject [(str ''id'', JString (str ''U1'')), (str ''name'', JString (str ''amy''))]]
      = map Inr [\<lparr>user_id = str ''U1'', user_name = str ''ann'', displayName = None,
                   avatarURL = None\<rparr>,
                 \<lparr>user_id = str ''U1'', user_name = str ''amy'', displayName = None,
                   avatarURL = None\<rparr>]"
    by (simp add: sampleParseUser_def stringField_def str_def)
  from repeated_ids_last_wins [OF rawChannels parsedChannels rawUsers parsedUsers]
  show ?thesis
    by (auto simp: str_def)
qed

end
